theory Spec2Isabelle
  imports Complex_Main "HOL-Library.Multiset" "HOL-Library.Product_Lexorder"
begin

section \<open>Python values used by the flashcard program\<close>

text \<open>
  A Python \<open>str\<close> is modelled as a \<open>string\<close>, one \<open>char\<close> per code point of the range
  U+0000..U+00FF. Python integers are \<open>int\<close>. The results of true division (\<open>/\<close>) are
  modelled in \<open>rat\<close>: the model computes the exact quotient, of which the Python float is
  the correctly rounded value. Exceptions are values of \<open>error\<close>; a function that can
  raise returns \<open>error + 'a\<close>.
\<close>

datatype error = IndexError | ValueError | KeyError | NameError

text \<open>
  The code points below U+0100 that \<open>str.isspace\<close> accepts; \<open>str.strip()\<close> and \<open>float()\<close>
  remove exactly these from both ends.
\<close>

definition py_isspace :: "char \<Rightarrow> bool" where
  "py_isspace c = (of_char c \<in> {9, 10, 11, 12, 13, 28, 29, 30, 31, 32, 133, 160 :: nat})"

definition py_strip :: "string \<Rightarrow> string" where
  "py_strip s = rev (dropWhile py_isspace (rev (dropWhile py_isspace s)))"

definition py_isdigit :: "char \<Rightarrow> bool" where
  "py_isdigit c = (48 \<le> (of_char c :: nat) \<and> (of_char c :: nat) \<le> 57)"

definition ascii_lower :: "char \<Rightarrow> char" where
  "ascii_lower c =
     (if 65 \<le> (of_char c :: nat) \<and> (of_char c :: nat) \<le> 90
      then char_of ((of_char c :: nat) + 32) else c)"

text \<open>
  The strings the builtin \<open>float()\<close> accepts (Python 3.6 and later), after the grammar of
  the language reference:
  \<^verbatim>\<open>
  floatvalue  ::= [sign] (floatnumber | "inf" | "infinity" | "nan")   -- letters in any case
  floatnumber ::= number [exponent]
  number      ::= [digitpart] "." digitpart | digitpart ["."]
  exponent    ::= ("e" | "E") [sign] digitpart
  digitpart   ::= digit (["_"] digit)*
  \<close>
  with white space stripped from both ends first. Each recogniser below consumes a prefix
  and returns the rest of the string, \<open>None\<close> when the prefix is missing.
\<close>

fun digits_tail :: "string \<Rightarrow> string" where
  "digits_tail [] = []"
| "digits_tail (c # s) =
     (if py_isdigit c then digits_tail s
      else if c = CHR ''_'' then
        (case s of [] \<Rightarrow> c # s
         | d # t \<Rightarrow> if py_isdigit d then digits_tail s else c # s)
      else c # s)"

definition digitpart :: "string \<Rightarrow> string option" where
  "digitpart s =
     (case s of [] \<Rightarrow> None
      | c # r \<Rightarrow> if py_isdigit c then Some (digits_tail r) else None)"

definition drop_sign :: "string \<Rightarrow> string" where
  "drop_sign s =
     (case s of [] \<Rightarrow> []
      | c # r \<Rightarrow> if c = CHR ''+'' \<or> c = CHR ''-'' then r else s)"

definition number :: "string \<Rightarrow> string option" where
  "number s =
     (case digitpart s of
        Some r \<Rightarrow>
          (case r of [] \<Rightarrow> Some []
           | c # r' \<Rightarrow>
               if c = CHR ''.'' then
                 (case digitpart r' of Some r'' \<Rightarrow> Some r'' | None \<Rightarrow> Some r')
               else Some r)
      | None \<Rightarrow>
          (case s of [] \<Rightarrow> None
           | c # r \<Rightarrow> if c = CHR ''.'' then digitpart r else None))"

definition exponent :: "string \<Rightarrow> string option" where
  "exponent s =
     (case s of [] \<Rightarrow> Some []
      | c # r \<Rightarrow>
          if c = CHR ''e'' \<or> c = CHR ''E'' then digitpart (drop_sign r) else Some s)"

definition floatnumber :: "string \<Rightarrow> bool" where
  "floatnumber s = (case number s of None \<Rightarrow> False | Some r \<Rightarrow> exponent r = Some [])"

definition py_float_ok :: "string \<Rightarrow> bool" where
  "py_float_ok s =
     (let u = drop_sign (py_strip s); l = map ascii_lower u
      in l = ''inf'' \<or> l = ''infinity'' \<or> l = ''nan'' \<or> floatnumber u)"

section \<open>fc\_card.py: FlashcardCard\<close>

text \<open>
  The fields \<open>_question\<close>, \<open>_valid_answers\<close>, \<open>_answer_type\<close>, \<open>_override_confirms\<close>,
  \<open>_attempts\<close> and \<open>_correct\<close> of a card. The version tag \<open>_instance_version\<close> is read by
  the unpickler only and is left out. \<open>_override_confirms\<close> is \<open>None\<close>, \<open>True\<close> or \<open>False\<close>.
\<close>

record FlashcardCard =
  question :: string
  valid_answers :: "string list"
  answer_type :: string
  override_confirms :: "bool option"
  attempts :: int
  correct :: int

text \<open>
  \<open>_guessAnswerType\<close>. The first read of \<open>_valid_answers[0]\<close> is inside \<open>try\<close> with a bare
  \<open>except\<close>, so on an empty list \<open>isnum\<close> stays \<open>False\<close>; the read in the \<open>elif\<close> is not
  guarded and raises \<open>IndexError\<close> there. The test \<open>' ' not in a\<close> looks for the space
  character only.
\<close>

definition guessAnswerType :: "string list \<Rightarrow> error + string" where
  "guessAnswerType va =
     (let isnum = (case va of [] \<Rightarrow> False | a # _ \<Rightarrow> py_float_ok a)
      in if length va > 1 then Inr ''multiple_choice''
         else (case va of
                 [] \<Rightarrow> Inl IndexError
               | a # _ \<Rightarrow>
                   if a = ''True'' \<or> a = ''False'' then Inr ''boolean''
                   else if isnum then Inr ''numeric''
                   else if CHR '' '' \<notin> set a then Inr ''word''
                   else Inr ''text''))"

text \<open>
  The constructor. \<open>answer_type\<close> and \<open>override_confirms\<close> default to \<open>None\<close>; the type is
  guessed only when none is given.
\<close>

definition FlashcardCard_init ::
  "string \<Rightarrow> string list \<Rightarrow> string option \<Rightarrow> bool option \<Rightarrow> error + FlashcardCard" where
  "FlashcardCard_init q va aty oc =
     (case (case aty of None \<Rightarrow> guessAnswerType va | Some t \<Rightarrow> Inr t) of
        Inl e \<Rightarrow> Inl e
      | Inr t \<Rightarrow>
          Inr \<lparr>question = q, valid_answers = va, answer_type = t,
               override_confirms = oc, attempts = 0, correct = 0\<rparr>)"

text \<open>\<open>__eq__\<close>: two cards are equal when their questions are.\<close>

definition card_eq :: "FlashcardCard \<Rightarrow> FlashcardCard \<Rightarrow> bool" where
  "card_eq a b = (question a = question b)"

definition ranking :: "FlashcardCard \<Rightarrow> rat" where
  "ranking c =
     (if attempts c = 0 then 0
      else of_int (correct c * correct c) / of_int (attempts c))"

definition score :: "FlashcardCard \<Rightarrow> rat" where
  "score c =
     (if attempts c = 0 then 0
      else 100 * of_int (correct c) / of_int (attempts c))"

text \<open>
  \<open>checkAnswer\<close> returns the card as the call leaves it together with what the call
  returns or raises: \<open>_attempts\<close> is incremented before \<open>_valid_answers[0]\<close> is read, so
  the card is changed also when that read raises. \<open>confirmed\<close> is \<open>Some b\<close> when the caller
  passes a boolean and \<open>None\<close> otherwise.
\<close>

definition checkAnswer ::
  "FlashcardCard \<Rightarrow> string \<Rightarrow> bool option \<Rightarrow> FlashcardCard \<times> (error + bool)" where
  "checkAnswer c answer_text confirmed =
     (let c1 = c\<lparr>attempts := attempts c + 1\<rparr>
      in case confirmed of
           Some b \<Rightarrow>
             if b then (c1\<lparr>correct := correct c1 + 1\<rparr>, Inr True) else (c1, Inr False)
         | None \<Rightarrow>
             (case valid_answers c1 of
                [] \<Rightarrow> (c1, Inl IndexError)
              | a # _ \<Rightarrow>
                  if answer_text = a then (c1\<lparr>correct := correct c1 + 1\<rparr>, Inr True)
                  else (c1, Inr False)))"

text \<open>A sequence of \<open>checkAnswer\<close> calls on one card, each with its own arguments.\<close>

fun checkAnswers :: "FlashcardCard \<Rightarrow> (string \<times> bool option) list \<Rightarrow> FlashcardCard" where
  "checkAnswers c [] = c"
| "checkAnswers c (call # calls) = checkAnswers (fst (checkAnswer c (fst call) (snd call))) calls"

section \<open>fc\_set.py: FlashcardSet\<close>

text \<open>
  The dictionary \<open>_data\<close> of a set: its name, the \<open>confirms\<close> options by answer type, and
  the list of cards in the order they were added.
\<close>

record FlashcardSet =
  setname :: string
  confirms :: "string \<rightharpoonup> bool"
  cards :: "FlashcardCard list"

definition DEFAULT_confirms :: "string \<rightharpoonup> bool" where
  "DEFAULT_confirms =
     [''boolean'' \<mapsto> False, ''numeric'' \<mapsto> True, ''word'' \<mapsto> True, ''text'' \<mapsto> True,
      ''multiple_choice'' \<mapsto> False]"

definition FlashcardSet_init :: "string \<Rightarrow> FlashcardSet" where
  "FlashcardSet_init name = \<lparr>setname = name, confirms = DEFAULT_confirms, cards = []\<rparr>"

definition getAllCards :: "FlashcardSet \<Rightarrow> FlashcardCard list" where
  "getAllCards s = cards s"

text \<open>
  \<open>newcard in cards\<close> and \<open>cards.remove(newcard)\<close> compare with \<open>__eq__\<close>. \<open>remove\<close> deletes
  the first equal element and raises \<open>ValueError\<close> when there is none.
\<close>

definition py_contains :: "FlashcardCard \<Rightarrow> FlashcardCard list \<Rightarrow> bool" where
  "py_contains x xs = list_ex (\<lambda>e. card_eq e x) xs"

fun py_remove :: "FlashcardCard \<Rightarrow> FlashcardCard list \<Rightarrow> error + FlashcardCard list" where
  "py_remove x [] = Inl ValueError"
| "py_remove x (e # es) =
     (if card_eq e x then Inr es
      else (case py_remove x es of Inl err \<Rightarrow> Inl err | Inr r \<Rightarrow> Inr (e # r)))"

text \<open>\<open>addCard\<close> returns the set as the call leaves it and the boolean it returns.\<close>

definition addCard ::
  "FlashcardSet \<Rightarrow> FlashcardCard \<Rightarrow> bool \<Rightarrow> error + (FlashcardSet \<times> bool)" where
  "addCard s newcard replaceduplicate =
     (if \<not> py_contains newcard (cards s) then Inr (s\<lparr>cards := cards s @ [newcard]\<rparr>, True)
      else if replaceduplicate then
        (case py_remove newcard (cards s) of
           Inl err \<Rightarrow> Inl err
         | Inr r \<Rightarrow> Inr (s\<lparr>cards := r @ [newcard]\<rparr>, True))
      else Inr (s, False))"

text \<open>
  Randomness. The program draws every random number with \<open>random.random()\<close>. The model
  takes the sequence of values these calls return, \<open>rnd 0\<close>, \<open>rnd 1\<close>, ..., and threads
  the number of values already drawn; \<open>draws rnd p k\<close> are the next \<open>k\<close> values.

  \<open>sorted(xs, key=f)\<close> evaluates \<open>f\<close> once on each element, in list order, and sorts
  stably by the keys; \<open>sorted_by_key ks xs\<close> is that sort, given the keys \<open>ks\<close>. Tuples
  compare lexicographically. \<open>py_slice_to xs n\<close> is the slice \<open>xs[:n]\<close>.
\<close>

definition draws :: "(nat \<Rightarrow> rat) \<Rightarrow> nat \<Rightarrow> nat \<Rightarrow> rat list" where
  "draws rnd p k = map rnd [p..<p + k]"

definition sorted_by_key :: "('k::linorder) list \<Rightarrow> 'a list \<Rightarrow> 'a list" where
  "sorted_by_key ks xs = map snd (sort_key fst (zip ks xs))"

definition py_slice_to :: "'a list \<Rightarrow> int \<Rightarrow> 'a list" where
  "py_slice_to xs n =
     (if 0 \<le> n then take (nat n) xs else take (nat (int (length xs) + n)) xs)"

definition successlist :: "(nat \<Rightarrow> rat) \<Rightarrow> nat \<Rightarrow> FlashcardSet \<Rightarrow> FlashcardCard list" where
  "successlist rnd p s =
     sorted_by_key (zip (map ranking (cards s)) (draws rnd p (length (cards s)))) (cards s)"

definition randomlist :: "(nat \<Rightarrow> rat) \<Rightarrow> nat \<Rightarrow> FlashcardSet \<Rightarrow> FlashcardCard list" where
  "randomlist rnd p s = sorted_by_key (draws rnd p (length (cards s))) (cards s)"

text \<open>
  \<open>getSortedCards\<close> returns the list and the number of random values drawn once it is done:
  one per card for \<open>successlist\<close>, then one per card for \<open>randomlist\<close>.
\<close>

definition getSortedCards ::
  "(nat \<Rightarrow> rat) \<Rightarrow> nat \<Rightarrow> FlashcardSet \<Rightarrow> int \<Rightarrow> int \<Rightarrow> FlashcardCard list \<times> nat" where
  "getSortedCards rnd p s numcards numrandomcards =
     (py_slice_to (successlist rnd p s) numcards
        @ py_slice_to (randomlist rnd (p + length (cards s)) s) numrandomcards,
      p + 2 * length (cards s))"

definition usesUserConfirm :: "FlashcardSet \<Rightarrow> FlashcardCard \<Rightarrow> error + bool" where
  "usesUserConfirm s crd =
     (case override_confirms crd of
        Some b \<Rightarrow> Inr b
      | None \<Rightarrow>
          (case confirms s (answer_type crd) of None \<Rightarrow> Inl KeyError | Some b \<Rightarrow> Inr b))"

section \<open>fc\_main.py: the states\<close>

subsection \<open>FCStateImportCSV\<close>

text \<open>
  The loop of \<open>FCStateImportCSV.run\<close> over the rows that \<open>csv.reader\<close> yields for the chosen
  file, each row a list of fields. The state of the loop is the set, the two counters and
  what was printed; a printed line is kept as a \<open>message\<close> with its line number. An
  exception leaves the loop with the state as it was when raised.
\<close>

datatype message =
  NotEnoughFields int
| AlreadyExists int string
| Imported int

record import_st =
  deck :: FlashcardSet
  linenumber :: int
  questionsimported :: int
  printed :: "message list"

fun import_rows :: "string list list \<Rightarrow> import_st \<Rightarrow> (error \<times> import_st) + import_st" where
  "import_rows [] st = Inr st"
| "import_rows (row # rows) st =
     (let st1 = st\<lparr>linenumber := linenumber st + 1\<rparr>
      in if length row < 2 then
           import_rows rows (st1\<lparr>printed := printed st1 @ [NotEnoughFields (linenumber st1)]\<rparr>)
         else
           (let q = py_strip (hd row);
                va = map py_strip (filter (\<lambda>answer. py_strip answer \<noteq> []) (tl row))
            in case FlashcardCard_init q va None None of
                 Inl err \<Rightarrow> Inl (err, st1)
               | Inr crd \<Rightarrow>
                   (case addCard (deck st1) crd False of
                      Inl err \<Rightarrow> Inl (err, st1)
                    | Inr (d, cardadded) \<Rightarrow>
                        if cardadded then
                          import_rows rows
                            (st1\<lparr>deck := d, questionsimported := questionsimported st1 + 1\<rparr>)
                        else
                          import_rows rows
                            (st1\<lparr>deck := d,
                                 printed := printed st1 @ [AlreadyExists (linenumber st1) q]\<rparr>))))"

definition FCStateImportCSV_run ::
  "FlashcardSet \<Rightarrow> string list list \<Rightarrow> (error \<times> import_st) + import_st" where
  "FCStateImportCSV_run s rows =
     (case import_rows rows
             \<lparr>deck = s, linenumber = 0, questionsimported = 0, printed = []\<rparr> of
        Inl err \<Rightarrow> Inl err
      | Inr st \<Rightarrow> Inr (st\<lparr>printed := printed st @ [Imported (questionsimported st)]\<rparr>))"

subsection \<open>FCStateRunCardsMenu\<close>

text \<open>
  The object \<open>FCStateRunCardList\<close> as its constructor sets it up, and the state that \<open>run\<close>
  leaves in \<open>self.next\<close>: the menu itself (nothing assigned), the main menu, or a new card
  run.
\<close>

record RunCardList =
  cardlist :: "FlashcardCard list"
  endless :: bool
  answered :: int
  passed :: int
  index :: int

datatype next_state =
  RunCardsMenu
| MainMenu
| RunCards RunCardList

definition FCStateRunCardList_init :: "FlashcardCard list \<Rightarrow> bool \<Rightarrow> RunCardList" where
  "FCStateRunCardList_init cl e =
     \<lparr>cardlist = cl, endless = e, answered = 0, passed = 0, index = 0\<rparr>"

text \<open>
  The card list \<open>run\<close> builds for a menu key. \<open>custom\<close> holds what \<open>int()\<close> made of the two
  lines the user typed for the custom run, \<open>None\<close> where \<open>int()\<close> raised; the result is
  \<open>None\<close> when \<open>run\<close> returns early on such input.
\<close>

definition build_cardlist ::
  "(nat \<Rightarrow> rat) \<Rightarrow> nat \<Rightarrow> FlashcardSet \<Rightarrow> string \<Rightarrow> int option \<times> int option
     \<Rightarrow> (FlashcardCard list \<times> nat) option" where
  "build_cardlist rnd p s k custom =
     (if k = ''1'' then Some (getSortedCards rnd p s 1 0)
      else if k = ''5'' then Some (getSortedCards rnd p s 5 0)
      else if k = ''10'' then Some (getSortedCards rnd p s 10 0)
      else if k = ''10r'' then Some (getSortedCards rnd p s 0 10)
      else if k = ''15'' then Some (getSortedCards rnd p s 10 5)
      else if k = ''third'' then
        Some (getSortedCards rnd p s (int (length (getAllCards s)) div 3) 0)
      else if k = ''half'' then
        Some (getSortedCards rnd p s (int (length (getAllCards s)) div 2) 0)
      else if k = ''all'' then Some (getAllCards s, p)
      else if k = ''endless'' then Some (getSortedCards rnd p s 1 0)
      else if k = ''custom'' then
        (case custom of
           (Some numranked, Some numrandom) \<Rightarrow> Some (getSortedCards rnd p s numranked numrandom)
         | _ \<Rightarrow> None)
      else Some ([], p))"

text \<open>
  \<open>FCStateRunCardsMenu.run\<close>, given what the menu returned: \<open>None\<close> for the abstain key,
  else the key and its label. In the branch for \<open>'endless'\<close> the call
  \<open>FCStateRunCardList(cardlist,self._mainmenu,self._set,endless)\<close> reads the name \<open>endless\<close>,
  which is bound neither in \<open>run\<close> nor at module level nor as a builtin: evaluating the
  argument raises \<open>NameError\<close> before any state is constructed.
\<close>

definition FCStateRunCardsMenu_run ::
  "(nat \<Rightarrow> rat) \<Rightarrow> nat \<Rightarrow> FlashcardSet \<Rightarrow> (string \<times> string) option
     \<Rightarrow> int option \<times> int option \<Rightarrow> error + (next_state \<times> nat)" where
  "FCStateRunCardsMenu_run rnd p s choice custom =
     (case choice of
        None \<Rightarrow> Inr (MainMenu, p)
      | Some (k, label) \<Rightarrow>
          (case build_cardlist rnd p s k custom of
             None \<Rightarrow> Inr (RunCardsMenu, p)
           | Some (cl, p1) \<Rightarrow>
               (let shuffled = sorted_by_key (draws rnd p1 (length cl)) cl;
                    p2 = p1 + length cl
                in if k = ''endless'' then Inl NameError
                   else Inr (RunCards (FCStateRunCardList_init shuffled False), p2))))"

subsection \<open>FCStateRunCardList\<close>

text \<open>
  How \<open>run\<close> asks the current card: a choice menu (the question printed and the dictionary
  \<open>choices\<close> handed to \<open>ConsoleMenu\<close>, keys in order; the menu adds the key \<open>q\<close> to return) or
  a free-text prompt. The keys of the True/False menu are the strings \<open>'1'\<close> and \<open>'2'\<close>;
  \<open>enumerate\<close> numbers the other menu with integers from 1. What the user then types is not
  part of this step.
\<close>

datatype pykey = KStr string | KInt int

datatype prompt =
  ChoiceMenu string "(pykey \<times> string) list"
| FreeformPrompt string

definition askMultipleChoice ::
  "(nat \<Rightarrow> rat) \<Rightarrow> nat \<Rightarrow> string \<Rightarrow> string list \<Rightarrow> prompt \<times> nat" where
  "askMultipleChoice rnd p q answers =
     (if length answers = 1 \<and> (hd answers = ''True'' \<or> hd answers = ''False'') then
        (ChoiceMenu q [(KStr ''1'', ''True''), (KStr ''2'', ''False'')], p)
      else
        (ChoiceMenu q
           (zip (map (\<lambda>i. KInt (int i)) [1..<Suc (length answers)])
                (sorted_by_key (draws rnd p (length answers)) answers)),
         p + length answers))"

definition askFreeform :: "string \<Rightarrow> prompt" where
  "askFreeform q = FreeformPrompt q"

text \<open>\<open>xs[i]\<close> for a Python integer \<open>i\<close>.\<close>

definition py_index :: "'a list \<Rightarrow> int \<Rightarrow> error + 'a" where
  "py_index xs i =
     (if 0 \<le> i \<and> i < int (length xs) then Inr (xs ! nat i)
      else if i < 0 \<and> - int (length xs) \<le> i then Inr (xs ! nat (int (length xs) + i))
      else Inl IndexError)"

text \<open>The first step of \<open>FCStateRunCardList.run\<close>: fetch the current card and ask it.\<close>

definition FCStateRunCardList_ask ::
  "(nat \<Rightarrow> rat) \<Rightarrow> nat \<Rightarrow> RunCardList \<Rightarrow> error + (prompt \<times> nat)" where
  "FCStateRunCardList_ask rnd p st =
     (case py_index (cardlist st) (index st) of
        Inl err \<Rightarrow> Inl err
      | Inr crd \<Rightarrow>
          if answer_type crd = ''multiple_choice'' \<or> answer_type crd = ''boolean'' then
            Inr (askMultipleChoice rnd p (question crd) (valid_answers crd))
          else Inr (askFreeform (question crd), p))"

subsection \<open>FCStateEditCard\<close>

text \<open>
  \<open>_changeQuestionText\<close> with the line the user typed. The state edits the card object it
  was given by \<open>FCStateEditCardsMain\<close>, which is the element of the set's list at the
  position the user chose; the change is therefore a change of that element.
\<close>

definition changeQuestionText :: "string \<Rightarrow> FlashcardCard \<Rightarrow> FlashcardCard" where
  "changeQuestionText newtext crd =
     (if newtext \<noteq> [] then crd\<lparr>question := newtext\<rparr> else crd)"

definition FCStateEditCard_changeQuestionText ::
  "FlashcardSet \<Rightarrow> nat \<Rightarrow> string \<Rightarrow> FlashcardSet" where
  "FCStateEditCard_changeQuestionText s i newtext =
     (if i < length (cards s)
      then s\<lparr>cards := (cards s)[i := changeQuestionText newtext (cards s ! i)]\<rparr>
      else s)"

section \<open>Example values\<close>

text \<open>
  The card of the scenario \<open>Card("2+2?", ["4"])\<close> as the constructor builds it, after one
  wrong answer, and after one right and one wrong answer.
\<close>

definition card_2plus2 :: FlashcardCard where
  "card_2plus2 =
     \<lparr>question = ''2+2?'', valid_answers = [''4''], answer_type = ''numeric'',
      override_confirms = None, attempts = 0, correct = 0\<rparr>"



text \<open>
  Two cards with different questions, the set that holds them in the order \<open>A\<close>, \<open>B\<close>, a
  second card for the question \<open>A\<close>, and a set of one card.
\<close>

definition card_A :: FlashcardCard where
  "card_A =
     \<lparr>question = ''A'', valid_answers = [''x''], answer_type = ''word'',
      override_confirms = None, attempts = 0, correct = 0\<rparr>"

definition card_B :: FlashcardCard where
  "card_B =
     \<lparr>question = ''B'', valid_answers = [''y''], answer_type = ''word'',
      override_confirms = None, attempts = 5, correct = 5\<rparr>"

definition card_A2 :: FlashcardCard where
  "card_A2 =
     \<lparr>question = ''A'', valid_answers = [''z'', ''w''], answer_type = ''multiple_choice'',
      override_confirms = None, attempts = 0, correct = 0\<rparr>"

definition set_AB :: FlashcardSet where
  "set_AB = \<lparr>setname = ''demo'', confirms = DEFAULT_confirms, cards = [card_A, card_B]\<rparr>"

definition set_BA :: FlashcardSet where
  "set_BA = \<lparr>setname = ''demo'', confirms = DEFAULT_confirms, cards = [card_B, card_A]\<rparr>"

definition set_A :: FlashcardSet where
  "set_A = \<lparr>setname = ''demo'', confirms = DEFAULT_confirms, cards = [card_A]\<rparr>"

text \<open>A sequence of random values: 1/2 first, 0 from then on.\<close>

definition rnd_half_then_zero :: "nat \<Rightarrow> rat" where
  "rnd_half_then_zero k = (if k = 0 then 1 / 2 else 0)"

text \<open>
  A card of type \<open>boolean\<close> that stores a distractor, as the constructor builds it when
  the type is given, and a card run that is about to ask it.
\<close>

definition card_bool :: FlashcardCard where
  "card_bool =
     \<lparr>question = ''Q'', valid_answers = [''True'', ''Maybe''], answer_type = ''boolean'',
      override_confirms = None, attempts = 0, correct = 0\<rparr>"

definition run_bool :: RunCardList where
  "run_bool = FCStateRunCardList_init [card_bool] False"

definition card_true :: FlashcardCard where
  "card_true =
     \<lparr>question = ''T'', valid_answers = [''True''], answer_type = ''boolean'',
      override_confirms = None, attempts = 0, correct = 0\<rparr>"

definition card_mc :: FlashcardCard where
  "card_mc =
     \<lparr>question = ''Sky color?'', valid_answers = [''Blue'', ''Red'', ''Green''],
      answer_type = ''multiple_choice'', override_confirms = None, attempts = 0, correct = 0\<rparr>"

definition run_three :: RunCardList where
  "run_three = FCStateRunCardList_init [card_true, card_mc, card_A] False"

section \<open>Properties of FlashcardCard\<close>

lemmas float_defs =
  py_float_ok_def floatnumber_def number_def exponent_def digitpart_def drop_sign_def
  py_strip_def py_isspace_def py_isdigit_def ascii_lower_def Let_def

lemma checkAnswer_attempts: "attempts (fst (checkAnswer c a cf)) = attempts c + 1"
  by (simp add: checkAnswer_def Let_def split: option.split list.split)

lemma checkAnswer_correct_bounds:
  "correct c \<le> correct (fst (checkAnswer c a cf)) \<and>
   correct (fst (checkAnswer c a cf)) \<le> correct c + 1"
  by (simp add: checkAnswer_def Let_def split: option.split list.split)

lemma checkAnswers_invariant:
  "0 \<le> correct c \<Longrightarrow> correct c \<le> attempts c \<Longrightarrow>
   0 \<le> correct (checkAnswers c calls) \<and>
   correct (checkAnswers c calls) \<le> attempts (checkAnswers c calls)"
proof (induction calls arbitrary: c)
  case Nil
  then show ?case by simp
next
  case (Cons call calls)
  let ?c' = "fst (checkAnswer c (fst call) (snd call))"
  have b: "correct c \<le> correct ?c' \<and> correct ?c' \<le> correct c + 1"
    by (rule checkAnswer_correct_bounds)
  have a: "attempts ?c' = attempts c + 1"
    by (rule checkAnswer_attempts)
  have "0 \<le> correct ?c'" using b Cons.prems by linarith
  moreover have "correct ?c' \<le> attempts ?c'" using a b Cons.prems by linarith
  ultimately show ?case using Cons.IH [of ?c'] by simp
qed

lemma init_fresh:
  "FlashcardCard_init q va aty oc = Inr c0 \<Longrightarrow> attempts c0 = 0 \<and> correct c0 = 0"
  by (auto simp: FlashcardCard_init_def split: sum.splits option.splits)

lemma init_2plus2: "FlashcardCard_init ''2+2?'' [''4''] None None = Inr card_2plus2"
  by (simp add: FlashcardCard_init_def guessAnswerType_def card_2plus2_def float_defs)

text \<open>
  C1. \<open>checkAnswer\<close> adds exactly 1 to \<open>attempts\<close>. With \<open>confirmed\<close> a boolean \<open>b\<close> it returns
  \<open>b\<close> and adds 1 to \<open>correct\<close> exactly when \<open>b\<close> is true. With \<open>confirmed\<close> not given, on a card
  that has a first valid answer \<open>v\<close>, it returns whether \<open>answer_text = v\<close> (equality of
  strings, so case-sensitive) and adds 1 to \<open>correct\<close> exactly then. It returns \<open>True\<close> iff
  \<open>correct\<close> went up by 1, and \<open>correct\<close> is unchanged otherwise. After any sequence of calls
  on a card fresh from the constructor, \<open>0 \<le> correct \<le> attempts\<close>.
\<close>

theorem checkAnswer_counts:
  "attempts (fst (checkAnswer c a cf)) = attempts c + 1
   \<and> (cf = Some b \<longrightarrow>
        snd (checkAnswer c a cf) = Inr b
        \<and> correct (fst (checkAnswer c a cf)) = correct c + (if b then 1 else 0))
   \<and> (cf = None \<and> valid_answers c = v # vs \<longrightarrow>
        snd (checkAnswer c a cf) = Inr (a = v)
        \<and> correct (fst (checkAnswer c a cf)) = correct c + (if a = v then 1 else 0))
   \<and> (snd (checkAnswer c a cf) = Inr True
        \<longleftrightarrow> correct (fst (checkAnswer c a cf)) = correct c + 1)
   \<and> (snd (checkAnswer c a cf) \<noteq> Inr True
        \<longleftrightarrow> correct (fst (checkAnswer c a cf)) = correct c)
   \<and> (FlashcardCard_init q va aty oc = Inr c0 \<longrightarrow>
        0 \<le> correct (checkAnswers c0 calls)
        \<and> correct (checkAnswers c0 calls) \<le> attempts (checkAnswers c0 calls))"
proof -
  have 1: "attempts (fst (checkAnswer c a cf)) = attempts c + 1"
    by (rule checkAnswer_attempts)
  have 2: "cf = Some b \<longrightarrow>
        snd (checkAnswer c a cf) = Inr b
        \<and> correct (fst (checkAnswer c a cf)) = correct c + (if b then 1 else 0)"
    by (simp add: checkAnswer_def Let_def)
  have 3: "cf = None \<and> valid_answers c = v # vs \<longrightarrow>
        snd (checkAnswer c a cf) = Inr (a = v)
        \<and> correct (fst (checkAnswer c a cf)) = correct c + (if a = v then 1 else 0)"
    by (simp add: checkAnswer_def Let_def)
  have 4: "snd (checkAnswer c a cf) = Inr True
        \<longleftrightarrow> correct (fst (checkAnswer c a cf)) = correct c + 1"
    by (simp add: checkAnswer_def Let_def split: option.split list.split)
  have 5: "snd (checkAnswer c a cf) \<noteq> Inr True
        \<longleftrightarrow> correct (fst (checkAnswer c a cf)) = correct c"
    by (simp add: checkAnswer_def Let_def split: option.split list.split)
  have 6: "FlashcardCard_init q va aty oc = Inr c0 \<longrightarrow>
        0 \<le> correct (checkAnswers c0 calls)
        \<and> correct (checkAnswers c0 calls) \<le> attempts (checkAnswers c0 calls)"
  proof
    assume "FlashcardCard_init q va aty oc = Inr c0"
    then have "attempts c0 = 0 \<and> correct c0 = 0" by (rule init_fresh)
    then show "0 \<le> correct (checkAnswers c0 calls)
        \<and> correct (checkAnswers c0 calls) \<le> attempts (checkAnswers c0 calls)"
      using checkAnswers_invariant [of c0 calls] by simp
  qed
  from 1 2 3 4 5 6 show ?thesis by blast
qed

text \<open>
  The scenario of the specification: \<open>Card("2+2?", ["4"])\<close>, \<open>checkAnswer("4")\<close> then
  \<open>checkAnswer("5")\<close>, and the two confirmed paths.
\<close>

theorem checkAnswer_counts_witness:
  "FlashcardCard_init ''2+2?'' [''4''] None None = Inr card_2plus2
   \<and> valid_answers card_2plus2 = ''4'' # []
   \<and> snd (checkAnswer card_2plus2 ''4'' None) = Inr True
   \<and> attempts (fst (checkAnswer card_2plus2 ''4'' None)) = 1
   \<and> correct (fst (checkAnswer card_2plus2 ''4'' None)) = 1
   \<and> snd (checkAnswer (fst (checkAnswer card_2plus2 ''4'' None)) ''5'' None) = Inr False
   \<and> snd (checkAnswer card_2plus2 ''5'' (Some True)) = Inr True
   \<and> correct (fst (checkAnswer card_2plus2 ''4'' (Some False))) = 0
   \<and> attempts (checkAnswers card_2plus2 [(''4'', None), (''5'', None)]) = 2
   \<and> correct (checkAnswers card_2plus2 [(''4'', None), (''5'', None)]) = 1
   \<and> score (checkAnswers card_2plus2 [(''4'', None), (''5'', None)]) = 50
   \<and> 0 \<le> correct (checkAnswers card_2plus2 [(''4'', None), (''5'', None)])
   \<and> correct (checkAnswers card_2plus2 [(''4'', None), (''5'', None)])
        \<le> attempts (checkAnswers card_2plus2 [(''4'', None), (''5'', None)])"
proof -
  have i: "FlashcardCard_init ''2+2?'' [''4''] None None = Inr card_2plus2"
    by (rule init_2plus2)
  have v: "valid_answers card_2plus2 = ''4'' # []" by (simp add: card_2plus2_def)
  have z: "attempts card_2plus2 = 0 \<and> correct card_2plus2 = 0" by (simp add: card_2plus2_def)
  note t1 = checkAnswer_counts [of card_2plus2 "''4''" None undefined "''4''" "[]"
      "''2+2?''" "[''4'']" None None card_2plus2 "[(''4'', None), (''5'', None)]"]
  note t2 = checkAnswer_counts [of "fst (checkAnswer card_2plus2 ''4'' None)" "''5''" None
      undefined "''4''" "[]" "''2+2?''" "[''4'']" None None card_2plus2 "[]"]
  note t3 = checkAnswer_counts [of card_2plus2 "''5''" "Some True" True "''4''" "[]"
      "''2+2?''" "[''4'']" None None card_2plus2 "[]"]
  note t4 = checkAnswer_counts [of card_2plus2 "''4''" "Some False" False "''4''" "[]"
      "''2+2?''" "[''4'']" None None card_2plus2 "[]"]
  have v2: "valid_answers (fst (checkAnswer card_2plus2 ''4'' None)) = ''4'' # []"
    by (simp add: checkAnswer_def card_2plus2_def)
  have r: "attempts (checkAnswers card_2plus2 [(''4'', None), (''5'', None)]) = 2
   \<and> correct (checkAnswers card_2plus2 [(''4'', None), (''5'', None)]) = 1
   \<and> score (checkAnswers card_2plus2 [(''4'', None), (''5'', None)]) = 50"
    by (simp add: checkAnswer_def card_2plus2_def score_def)
  show ?thesis using i v v2 z t1 t2 t3 t4 r by simp
qed







text \<open>
  C7, as amended. The constructor raises exactly when the answer list is empty and no
  answer type is given, and then it is \<open>IndexError\<close> from the guess of the type; in every
  other case, with any non-empty answer list in particular, it returns the card with the
  given question and answers and both counters 0. With an answer type given it never
  raises, whatever the answer list.
\<close>

theorem init_fails_iff:
  "(FlashcardCard_init q va aty oc = Inl IndexError \<longleftrightarrow> va = [] \<and> aty = None)
   \<and> (va \<noteq> [] \<or> aty \<noteq> None \<longrightarrow>
        (\<exists>c. FlashcardCard_init q va aty oc = Inr c \<and> question c = q \<and> valid_answers c = va
             \<and> override_confirms c = oc \<and> attempts c = 0 \<and> correct c = 0))
   \<and> (aty = Some t \<longrightarrow>
        FlashcardCard_init q va aty oc =
          Inr \<lparr>question = q, valid_answers = va, answer_type = t,
               override_confirms = oc, attempts = 0, correct = 0\<rparr>)"
  by (cases va; cases aty) (auto simp: FlashcardCard_init_def guessAnswerType_def Let_def)

theorem init_fails_iff_witness:
  "FlashcardCard_init ''Q'' [] None None = Inl IndexError
   \<and> FlashcardCard_init ''2+2?'' [''4''] None None \<noteq> Inl IndexError
   \<and> (\<exists>c. FlashcardCard_init ''2+2?'' [''4''] None None = Inr c \<and> valid_answers c = [''4''])
   \<and> FlashcardCard_init ''Q'' [] (Some ''text'') None =
       Inr \<lparr>question = ''Q'', valid_answers = [], answer_type = ''text'',
            override_confirms = None, attempts = 0, correct = 0\<rparr>"
  using init_fails_iff [of "''Q''" "[]" None None "''text''"]
    init_fails_iff [of "''2+2?''" "[''4'']" None None "''text''"]
    init_fails_iff [of "''Q''" "[]" "Some ''text''" None "''text''"]
  by auto

text \<open>
  C7 as stated fails: with an answer type given, constructing a card with an empty
  answer list raises nothing.
\<close>

theorem init_empty_answers_counterexample:
  "FlashcardCard_init ''Q'' [] (Some ''text'') None =
     Inr \<lparr>question = ''Q'', valid_answers = [], answer_type = ''text'',
          override_confirms = None, attempts = 0, correct = 0\<rparr>"
  by (simp add: FlashcardCard_init_def)

section \<open>Properties of FlashcardSet\<close>

lemmas demo_defs = card_A_def card_B_def card_A2_def set_AB_def set_BA_def set_A_def

lemma py_contains_iff: "py_contains x xs \<longleftrightarrow> (\<exists>e\<in>set xs. question e = question x)"
  by (simp add: py_contains_def card_eq_def list_ex_iff)

lemma py_remove_first:
  "\<not> py_contains x pre \<Longrightarrow> question old = question x \<Longrightarrow>
   py_remove x (pre @ old # post) = Inr (pre @ post)"
  by (induction pre) (auto simp: py_contains_def card_eq_def)

lemma py_contains_split:
  "py_contains x xs \<Longrightarrow>
   \<exists>pre old post. xs = pre @ old # post \<and> question old = question x \<and> \<not> py_contains x pre"
proof -
  assume "py_contains x xs"
  then have "\<exists>e\<in>set xs. question e = question x" by (simp add: py_contains_iff)
  then obtain pre old post where
    "xs = pre @ old # post" "question old = question x" "\<forall>e\<in>set pre. question e \<noteq> question x"
    using split_list_first_prop [of xs "\<lambda>e. question e = question x"] by blast
  then show ?thesis by (auto simp: py_contains_iff)
qed

text \<open>
  C4. \<open>addCard\<close> never raises. \<open>newcard in cards\<close> holds exactly when some card of the set has
  the question of \<open>newcard\<close>; no other field is compared. If none has, the card is appended
  and \<open>True\<close> returned. If one has and \<open>replaceduplicate\<close> is false, the set is unchanged and
  \<open>False\<close> returned. If one has and \<open>replaceduplicate\<close> is true, the first card with that
  question is removed, the new card appended, and \<open>True\<close> returned.
\<close>

theorem addCard_cases:
  "(\<not> py_contains newcard (cards s) \<longrightarrow>
      addCard s newcard r = Inr (s\<lparr>cards := cards s @ [newcard]\<rparr>, True))
   \<and> (py_contains newcard (cards s) \<and> \<not> r \<longrightarrow> addCard s newcard r = Inr (s, False))
   \<and> (py_contains newcard (cards s) \<and> r \<longrightarrow>
        (\<exists>pre old post.
           cards s = pre @ old # post \<and> question old = question newcard
           \<and> \<not> py_contains newcard pre
           \<and> addCard s newcard r = Inr (s\<lparr>cards := pre @ post @ [newcard]\<rparr>, True)))
   \<and> (py_contains newcard (cards s) \<longleftrightarrow> question newcard \<in> set (map question (cards s)))"
proof -
  have 1: "\<not> py_contains newcard (cards s) \<longrightarrow>
      addCard s newcard r = Inr (s\<lparr>cards := cards s @ [newcard]\<rparr>, True)"
    by (simp add: addCard_def)
  have 2: "py_contains newcard (cards s) \<and> \<not> r \<longrightarrow> addCard s newcard r = Inr (s, False)"
    by (simp add: addCard_def)
  have 3: "py_contains newcard (cards s) \<and> r \<longrightarrow>
        (\<exists>pre old post.
           cards s = pre @ old # post \<and> question old = question newcard
           \<and> \<not> py_contains newcard pre
           \<and> addCard s newcard r = Inr (s\<lparr>cards := pre @ post @ [newcard]\<rparr>, True))"
  proof
    assume h: "py_contains newcard (cards s) \<and> r"
    then obtain pre old post where
      d: "cards s = pre @ old # post" "question old = question newcard"
         "\<not> py_contains newcard pre"
      using py_contains_split by blast
    then have "py_remove newcard (cards s) = Inr (pre @ post)"
      by (simp add: py_remove_first)
    then have "addCard s newcard r = Inr (s\<lparr>cards := pre @ post @ [newcard]\<rparr>, True)"
      using h by (simp add: addCard_def)
    then show "\<exists>pre old post.
           cards s = pre @ old # post \<and> question old = question newcard
           \<and> \<not> py_contains newcard pre
           \<and> addCard s newcard r = Inr (s\<lparr>cards := pre @ post @ [newcard]\<rparr>, True)"
      using d by blast
  qed
  have 4: "py_contains newcard (cards s) \<longleftrightarrow> question newcard \<in> set (map question (cards s))"
    by (auto simp: py_contains_iff intro: rev_image_eqI)
  from 1 2 3 4 show ?thesis by blast
qed

text \<open>
  Adding \<open>B\<close> to the set of \<open>A\<close>; adding a second card for the question \<open>A\<close>, with other
  answers and another type, without and with replacement.
\<close>

theorem addCard_cases_witness:
  "\<not> py_contains card_B (cards set_A)
   \<and> addCard set_A card_B False = Inr (set_AB, True)
   \<and> py_contains card_A2 (cards set_AB)
   \<and> addCard set_AB card_A2 False = Inr (set_AB, False)
   \<and> addCard set_AB card_A2 True = Inr (set_AB\<lparr>cards := [card_B, card_A2]\<rparr>, True)
   \<and> card_A2 \<noteq> card_A"
proof -
  have a: "\<not> py_contains card_B (cards set_A)"
    by (simp add: py_contains_def card_eq_def demo_defs)
  have b: "py_contains card_A2 (cards set_AB)"
    by (simp add: py_contains_def card_eq_def demo_defs)
  have c: "set_A\<lparr>cards := cards set_A @ [card_B]\<rparr> = set_AB" by (simp add: demo_defs)
  have d: "card_A2 \<noteq> card_A" by (simp add: demo_defs)
  from addCard_cases [of card_A2 set_AB True] b
  obtain pre old post where
    e: "cards set_AB = pre @ old # post" "question old = question card_A2"
       "\<not> py_contains card_A2 pre"
       "addCard set_AB card_A2 True = Inr (set_AB\<lparr>cards := pre @ post @ [card_A2]\<rparr>, True)"
    by blast
  have f: "addCard set_AB card_A2 True = Inr (set_AB\<lparr>cards := [card_B, card_A2]\<rparr>, True)"
    by (simp add: addCard_def py_contains_def card_eq_def demo_defs)
  show ?thesis
    using a b c d e f addCard_cases [of card_B set_A False] addCard_cases [of card_A2 set_AB False]
    by simp
qed













section \<open>Properties of the states\<close>

lemma askMultipleChoice_boolean_shape:
  "answers = [''True''] \<or> answers = [''False''] \<Longrightarrow>
   askMultipleChoice rnd p q answers =
     (ChoiceMenu q [(KStr ''1'', ''True''), (KStr ''2'', ''False'')], p)"
  by (auto simp: askMultipleChoice_def)

lemma askMultipleChoice_other_shape:
  "answers \<noteq> [''True''] \<Longrightarrow> answers \<noteq> [''False''] \<Longrightarrow>
   askMultipleChoice rnd p q answers =
     (ChoiceMenu q
        (zip (map (\<lambda>i. KInt (int i)) [1..<Suc (length answers)])
             (sorted_by_key (draws rnd p (length answers)) answers)),
      p + length answers)"
proof -
  assume a: "answers \<noteq> [''True'']" "answers \<noteq> [''False'']"
  have "\<not> (length answers = 1 \<and> (hd answers = ''True'' \<or> hd answers = ''False''))"
  proof
    assume h: "length answers = 1 \<and> (hd answers = ''True'' \<or> hd answers = ''False'')"
    then obtain x where "answers = [x]" by (cases answers) auto
    with h a show False by auto
  qed
  then show ?thesis by (simp add: askMultipleChoice_def)
qed

text \<open>
  C10, as amended. A card is asked with a choice menu iff its answer type is
  \<open>multiple_choice\<close> or \<open>boolean\<close>, and with the free-text prompt otherwise. The menu is the
  two-choice True/False menu exactly when the card stores a single answer that is \<open>True\<close> or
  \<open>False\<close>, whichever of the two types it has; in every other case the menu numbers from 1
  all the answers the card stores, in the order of a sort by fresh random values.
\<close>

theorem ask_presentation:
  "py_index (cardlist st) (index st) = Inr c \<longrightarrow>
     ((\<exists>q ch p'. FCStateRunCardList_ask rnd p st = Inr (ChoiceMenu q ch, p'))
        \<longleftrightarrow> answer_type c = ''multiple_choice'' \<or> answer_type c = ''boolean'')
     \<and> ((\<exists>q p'. FCStateRunCardList_ask rnd p st = Inr (FreeformPrompt q, p'))
        \<longleftrightarrow> \<not> (answer_type c = ''multiple_choice'' \<or> answer_type c = ''boolean''))
     \<and> (\<not> (answer_type c = ''multiple_choice'' \<or> answer_type c = ''boolean'') \<longrightarrow>
          FCStateRunCardList_ask rnd p st = Inr (FreeformPrompt (question c), p))
     \<and> ((answer_type c = ''multiple_choice'' \<or> answer_type c = ''boolean'')
          \<and> (valid_answers c = [''True''] \<or> valid_answers c = [''False'']) \<longrightarrow>
          FCStateRunCardList_ask rnd p st =
            Inr (ChoiceMenu (question c) [(KStr ''1'', ''True''), (KStr ''2'', ''False'')], p))
     \<and> ((answer_type c = ''multiple_choice'' \<or> answer_type c = ''boolean'')
          \<and> valid_answers c \<noteq> [''True''] \<and> valid_answers c \<noteq> [''False''] \<longrightarrow>
          (\<exists>ch. FCStateRunCardList_ask rnd p st =
                  Inr (ChoiceMenu (question c) ch, p + length (valid_answers c))
             \<and> map fst ch = map (\<lambda>i. KInt (int i)) [1..<Suc (length (valid_answers c))]
             \<and> mset (map snd ch) = mset (valid_answers c)
             \<and> map snd ch =
                 sorted_by_key (draws rnd p (length (valid_answers c))) (valid_answers c)))"
proof
  assume i: "py_index (cardlist st) (index st) = Inr c"
  let ?mc = "answer_type c = ''multiple_choice'' \<or> answer_type c = ''boolean''"
  let ?va = "valid_answers c"
  have free: "\<not> ?mc \<Longrightarrow> FCStateRunCardList_ask rnd p st = Inr (FreeformPrompt (question c), p)"
    using i by (simp add: FCStateRunCardList_ask_def askFreeform_def)
  have menu: "?mc \<Longrightarrow>
      FCStateRunCardList_ask rnd p st = Inr (askMultipleChoice rnd p (question c) ?va)"
    using i by (simp add: FCStateRunCardList_ask_def)
  have tf: "?mc \<and> (?va = [''True''] \<or> ?va = [''False'']) \<longrightarrow>
          FCStateRunCardList_ask rnd p st =
            Inr (ChoiceMenu (question c) [(KStr ''1'', ''True''), (KStr ''2'', ''False'')], p)"
    using menu askMultipleChoice_boolean_shape [of ?va rnd p "question c"] by auto
  let ?ch = "zip (map (\<lambda>i. KInt (int i)) [1..<Suc (length ?va)])
                 (sorted_by_key (draws rnd p (length ?va)) ?va)"
  have len: "length (sorted_by_key (draws rnd p (length ?va)) ?va) = length ?va"
    by (simp add: sorted_by_key_def draws_def)
  have ms: "mset (sorted_by_key (draws rnd p (length ?va)) ?va) = mset ?va"
  proof -
    have "mset (sorted_by_key (draws rnd p (length ?va)) ?va)
        = image_mset snd (mset (zip (draws rnd p (length ?va)) ?va))"
      by (simp add: sorted_by_key_def)
    also have "\<dots> = mset (map snd (zip (draws rnd p (length ?va)) ?va))" by simp
    also have "\<dots> = mset ?va" by (simp add: draws_def)
    finally show ?thesis .
  qed
  have ch1: "map fst ?ch = map (\<lambda>i. KInt (int i)) [1..<Suc (length ?va)]"
    by (rule map_fst_zip) (simp add: len del: upt_Suc)
  have ch2: "map snd ?ch = sorted_by_key (draws rnd p (length ?va)) ?va"
    by (rule map_snd_zip) (simp add: len del: upt_Suc)
  have sh: "?mc \<and> ?va \<noteq> [''True''] \<and> ?va \<noteq> [''False''] \<longrightarrow>
          (\<exists>ch. FCStateRunCardList_ask rnd p st =
                  Inr (ChoiceMenu (question c) ch, p + length ?va)
             \<and> map fst ch = map (\<lambda>i. KInt (int i)) [1..<Suc (length ?va)]
             \<and> mset (map snd ch) = mset ?va
             \<and> map snd ch = sorted_by_key (draws rnd p (length ?va)) ?va)"
  proof
    assume h: "?mc \<and> ?va \<noteq> [''True''] \<and> ?va \<noteq> [''False'']"
    then have "FCStateRunCardList_ask rnd p st = Inr (ChoiceMenu (question c) ?ch, p + length ?va)"
      using menu askMultipleChoice_other_shape [of ?va rnd p "question c"] by simp
    then show "\<exists>ch. FCStateRunCardList_ask rnd p st =
                  Inr (ChoiceMenu (question c) ch, p + length ?va)
             \<and> map fst ch = map (\<lambda>i. KInt (int i)) [1..<Suc (length ?va)]
             \<and> mset (map snd ch) = mset ?va
             \<and> map snd ch = sorted_by_key (draws rnd p (length ?va)) ?va"
      using ch1 ch2 ms by (metis (no_types, lifting))
  qed
  have m2: "?mc \<Longrightarrow> \<exists>q ch p'. FCStateRunCardList_ask rnd p st = Inr (ChoiceMenu q ch, p')"
    using menu by (simp add: askMultipleChoice_def)
  have k1: "(\<exists>q ch p'. FCStateRunCardList_ask rnd p st = Inr (ChoiceMenu q ch, p')) \<longleftrightarrow> ?mc"
  proof (cases "?mc")
    case True
    then show ?thesis using m2 by blast
  next
    case False
    then have "FCStateRunCardList_ask rnd p st = Inr (FreeformPrompt (question c), p)"
      by (rule free)
    then show ?thesis using False by simp
  qed
  have k2: "(\<exists>q p'. FCStateRunCardList_ask rnd p st = Inr (FreeformPrompt q, p')) \<longleftrightarrow> \<not> ?mc"
  proof (cases "?mc")
    case True
    then obtain q ch p' where "FCStateRunCardList_ask rnd p st = Inr (ChoiceMenu q ch, p')"
      using m2 by blast
    then show ?thesis using True by simp
  next
    case False
    then have "FCStateRunCardList_ask rnd p st = Inr (FreeformPrompt (question c), p)"
      by (rule free)
    then show ?thesis using False by simp
  qed
  show "((\<exists>q ch p'. FCStateRunCardList_ask rnd p st = Inr (ChoiceMenu q ch, p')) \<longleftrightarrow> ?mc)
     \<and> ((\<exists>q p'. FCStateRunCardList_ask rnd p st = Inr (FreeformPrompt q, p')) \<longleftrightarrow> \<not> ?mc)
     \<and> (\<not> ?mc \<longrightarrow> FCStateRunCardList_ask rnd p st = Inr (FreeformPrompt (question c), p))
     \<and> (?mc \<and> (?va = [''True''] \<or> ?va = [''False'']) \<longrightarrow>
          FCStateRunCardList_ask rnd p st =
            Inr (ChoiceMenu (question c) [(KStr ''1'', ''True''), (KStr ''2'', ''False'')], p))
     \<and> (?mc \<and> ?va \<noteq> [''True''] \<and> ?va \<noteq> [''False''] \<longrightarrow>
          (\<exists>ch. FCStateRunCardList_ask rnd p st =
                  Inr (ChoiceMenu (question c) ch, p + length ?va)
             \<and> map fst ch = map (\<lambda>i. KInt (int i)) [1..<Suc (length ?va)]
             \<and> mset (map snd ch) = mset ?va
             \<and> map snd ch = sorted_by_key (draws rnd p (length ?va)) ?va))"
    using k1 k2 free tf sh by blast
qed

lemmas run_defs = run_bool_def run_three_def card_bool_def card_true_def card_mc_def
  FCStateRunCardList_init_def

text \<open>
  C10 as stated fails: a card of type \<open>boolean\<close> that stores the distractor \<open>Maybe\<close> next to
  \<open>True\<close> is asked with a menu of its two stored answers, not with the True/False menu.
\<close>

theorem ask_boolean_counterexample:
  "py_index (cardlist run_bool) (index run_bool) = Inr card_bool
   \<and> answer_type card_bool = ''boolean''
   \<and> FCStateRunCardList_ask rnd_half_then_zero 0 run_bool =
       Inr (ChoiceMenu ''Q'' [(KInt 1, ''Maybe''), (KInt 2, ''True'')], 2)
   \<and> FCStateRunCardList_ask rnd_half_then_zero 0 run_bool \<noteq>
       Inr (ChoiceMenu ''Q'' [(KStr ''1'', ''True''), (KStr ''2'', ''False'')], 0)
   \<and> FlashcardCard_init ''Q'' [''True'', ''Maybe''] (Some ''boolean'') None = Inr card_bool"
  by (simp add: FCStateRunCardList_ask_def py_index_def askMultipleChoice_def sorted_by_key_def
      draws_def rnd_half_then_zero_def run_defs FlashcardCard_init_def upt_rec)

text \<open>
  A run over a \<open>boolean\<close> card with the single answer \<open>True\<close>, a \<open>multiple_choice\<close> card with
  three answers and a \<open>word\<close> card, asked in turn.
\<close>

theorem ask_presentation_witness:
  "py_index (cardlist run_three) (index run_three) = Inr card_true
   \<and> FCStateRunCardList_ask rnd_half_then_zero 0 run_three =
       Inr (ChoiceMenu ''T'' [(KStr ''1'', ''True''), (KStr ''2'', ''False'')], 0)
   \<and> py_index (cardlist (run_three\<lparr>index := 1\<rparr>)) (index (run_three\<lparr>index := 1\<rparr>)) = Inr card_mc
   \<and> FCStateRunCardList_ask rnd_half_then_zero 0 (run_three\<lparr>index := 1\<rparr>) =
       Inr (ChoiceMenu ''Sky color?'' [(KInt 1, ''Red''), (KInt 2, ''Green''), (KInt 3, ''Blue'')], 3)
   \<and> py_index (cardlist (run_three\<lparr>index := 2\<rparr>)) (index (run_three\<lparr>index := 2\<rparr>)) = Inr card_A
   \<and> FCStateRunCardList_ask rnd_half_then_zero 0 (run_three\<lparr>index := 2\<rparr>) =
       Inr (FreeformPrompt ''A'', 0)"
proof -
  have i0: "py_index (cardlist run_three) (index run_three) = Inr card_true"
    by (simp add: py_index_def run_defs)
  have i1: "py_index (cardlist (run_three\<lparr>index := 1\<rparr>)) (index (run_three\<lparr>index := 1\<rparr>))
      = Inr card_mc"
    by (simp add: py_index_def run_defs)
  have i2: "py_index (cardlist (run_three\<lparr>index := 2\<rparr>)) (index (run_three\<lparr>index := 2\<rparr>))
      = Inr card_A"
    by (simp add: py_index_def run_defs)
  have s: "sorted_by_key (draws rnd_half_then_zero 0 (length (valid_answers card_mc)))
      (valid_answers card_mc) = [''Red'', ''Green'', ''Blue'']"
    by (simp add: sorted_by_key_def draws_def rnd_half_then_zero_def card_mc_def upt_rec)
  have t: "answer_type card_true = ''boolean'' \<and> valid_answers card_true = [''True'']
      \<and> question card_true = ''T''"
    by (simp add: card_true_def)
  have m: "answer_type card_mc = ''multiple_choice''
      \<and> valid_answers card_mc = [''Blue'', ''Red'', ''Green'']
      \<and> question card_mc = ''Sky color?''"
    by (simp add: card_mc_def)
  have a: "answer_type card_A = ''word'' \<and> question card_A = ''A''"
    by (simp add: card_A_def)
  from ask_presentation [of run_three card_true rnd_half_then_zero 0] i0 t
  have r0: "FCStateRunCardList_ask rnd_half_then_zero 0 run_three =
       Inr (ChoiceMenu ''T'' [(KStr ''1'', ''True''), (KStr ''2'', ''False'')], 0)"
    by simp
  have r1: "FCStateRunCardList_ask rnd_half_then_zero 0 (run_three\<lparr>index := 1\<rparr>) =
       Inr (ChoiceMenu ''Sky color?'' [(KInt 1, ''Red''), (KInt 2, ''Green''), (KInt 3, ''Blue'')], 3)"
    using i1 s m by (simp add: FCStateRunCardList_ask_def askMultipleChoice_def upt_rec)
  from ask_presentation [of "run_three\<lparr>index := 2\<rparr>" card_A rnd_half_then_zero 0] i2 a
  have r2: "FCStateRunCardList_ask rnd_half_then_zero 0 (run_three\<lparr>index := 2\<rparr>) =
       Inr (FreeformPrompt ''A'', 0)"
    by simp
  show ?thesis using i0 i1 i2 r0 r1 r2 by simp
qed

section \<open>Where the program departs from its specification\<close>

lemma addCard_keeps_questions_distinct:
  assumes d: "distinct (map question (cards s))"
    and a: "addCard s newcard r = Inr (s', b)"
  shows "distinct (map question (cards s'))"
proof (cases "py_contains newcard (cards s)")
  case False
  then have "s' = s\<lparr>cards := cards s @ [newcard]\<rparr>" using a by (simp add: addCard_def)
  moreover have "question newcard \<notin> set (map question (cards s))"
    using False by (auto simp: py_contains_iff)
  ultimately show ?thesis using d by simp
next
  case True
  show ?thesis
  proof (cases r)
    case False
    then have "s' = s" using True a by (simp add: addCard_def)
    then show ?thesis using d by simp
  next
    case r: True
    obtain pre old post where
      e: "cards s = pre @ old # post" "question old = question newcard"
         "\<not> py_contains newcard pre"
      using True py_contains_split by blast
    then have "py_remove newcard (cards s) = Inr (pre @ post)" by (simp add: py_remove_first)
    then have "s' = s\<lparr>cards := pre @ post @ [newcard]\<rparr>"
      using True r a by (simp add: addCard_def)
    then show ?thesis using d e by auto
  qed
qed

text \<open>
  C5. \<open>addCard\<close> keeps the questions of a set distinct (the lemma above), but
  \<open>_changeQuestionText\<close> stores the new question without looking at the other cards: in the
  set of \<open>A\<close> and \<open>B\<close>, built by \<open>addCard\<close>, changing the question of the second card to \<open>A\<close>
  leaves two cards with the question \<open>A\<close>.
\<close>

theorem changeQuestionText_duplicates:
  "addCard set_A card_B False = Inr (set_AB, True)
   \<and> distinct (map question (cards set_AB))
   \<and> map question (cards (FCStateEditCard_changeQuestionText set_AB 1 ''A'')) = [''A'', ''A'']
   \<and> \<not> distinct (map question (cards (FCStateEditCard_changeQuestionText set_AB 1 ''A'')))"
  by (simp add: addCard_def py_contains_def card_eq_def FCStateEditCard_changeQuestionText_def
      changeQuestionText_def demo_defs)

text \<open>
  C8. The row \<open>Q1~\<close> reaches the loop as the two fields \<open>Q1\<close> and the empty string, of
  which one is usable. The loop tests the number of fields, not of usable fields, so the
  row is not skipped: the card is constructed with an empty answer list and the
  constructor raises \<open>IndexError\<close>, which ends the import with nothing printed.
\<close>

theorem import_question_only_row_raises:
  "length [''Q1'', ''''] = 2
   \<and> filter (\<lambda>field. py_strip field \<noteq> []) [''Q1'', ''''] = [''Q1'']
   \<and> FCStateImportCSV_run (FlashcardSet_init ''demo'') [[''Q1'', '''']] =
       Inl (IndexError,
            \<lparr>deck = FlashcardSet_init ''demo'', linenumber = 1, questionsimported = 0,
             printed = []\<rparr>)"
  by (simp add: FCStateImportCSV_run_def FlashcardCard_init_def guessAnswerType_def
      py_strip_def py_isspace_def Let_def)

text \<open>
  C9. Whatever the set, the random values and the label, choosing \<open>endless\<close> in the run
  menu raises \<open>NameError\<close>: no card run is entered.
\<close>

theorem endless_raises_NameError:
  "FCStateRunCardsMenu_run rnd p s (Some (''endless'', label)) custom = Inl NameError"
  by (simp add: FCStateRunCardsMenu_run_def build_cardlist_def Let_def
      split: prod.split)

end
